theory Spec2Isabelle
  imports Complex_Main
begin

section \<open>Values of the Python program\<close>

text \<open>
  The program is \<^verbatim>\<open>mandelbrot_animation.py\<close>: a NumPy kernel that draws one frame
  (\<^verbatim>\<open>draw_mandelbrot\<close>), a generator of frames (\<^verbatim>\<open>generate_mandelbrot_animation\<close>), a
  streaming GIF writer (\<^verbatim>\<open>build_animated_gif\<close>) and the request handler that joins them.

  Python integers are \<open>int\<close>. A NumPy \<^verbatim>\<open>float64\<close> is a value of \<open>fval\<close>: a finite
  number, one of the two infinities, or NaN. The special values follow IEEE 754 as NumPy
  computes them (a division by zero or the logarithm of zero gives an infinity or NaN and
  a warning, never an exception). Finite values are computed as real numbers: rounding,
  overflow of a finite result and the sign of zero are left out of the model.
\<close>

datatype fval = Fin real | PInf | NInf | NaN

fun f_neg :: "fval \<Rightarrow> fval" where
  "f_neg (Fin x) = Fin (- x)"
| "f_neg PInf = NInf"
| "f_neg NInf = PInf"
| "f_neg NaN = NaN"

fun f_add :: "fval \<Rightarrow> fval \<Rightarrow> fval" where
  "f_add NaN _ = NaN"
| "f_add _ NaN = NaN"
| "f_add (Fin x) (Fin y) = Fin (x + y)"
| "f_add PInf NInf = NaN"
| "f_add NInf PInf = NaN"
| "f_add PInf _ = PInf"
| "f_add _ PInf = PInf"
| "f_add NInf _ = NInf"
| "f_add _ NInf = NInf"

definition f_sub :: "fval \<Rightarrow> fval \<Rightarrow> fval" where
  "f_sub a b = f_add a (f_neg b)"

text \<open>The sign of a float and an infinity of a given sign.\<close>

fun f_sgn :: "fval \<Rightarrow> real" where
  "f_sgn (Fin x) = sgn x"
| "f_sgn PInf = 1"
| "f_sgn NInf = - 1"
| "f_sgn NaN = 0"

definition f_inf :: "real \<Rightarrow> fval" where
  "f_inf s = (if s = 0 then NaN else if 0 < s then PInf else NInf)"

fun f_mul :: "fval \<Rightarrow> fval \<Rightarrow> fval" where
  "f_mul NaN _ = NaN"
| "f_mul _ NaN = NaN"
| "f_mul (Fin x) (Fin y) = Fin (x * y)"
| "f_mul a b = f_inf (f_sgn a * f_sgn b)"

fun f_div :: "fval \<Rightarrow> fval \<Rightarrow> fval" where
  "f_div NaN _ = NaN"
| "f_div _ NaN = NaN"
| "f_div (Fin x) (Fin y) = (if y = 0 then f_inf (sgn x) else Fin (x / y))"
| "f_div (Fin x) _ = Fin 0"
| "f_div a (Fin y) = f_inf (f_sgn a * (if y < 0 then - 1 else 1))"
| "f_div a b = NaN"

fun f_floor :: "fval \<Rightarrow> fval" where
  "f_floor (Fin x) = Fin (of_int \<lfloor>x\<rfloor>)"
| "f_floor a = a"

text \<open>\<^verbatim>\<open>numpy.log2\<close> and \<^verbatim>\<open>numpy.log10\<close>: the logarithm to base \<open>b\<close>.\<close>

fun f_log :: "real \<Rightarrow> fval \<Rightarrow> fval" where
  "f_log b (Fin x) = (if x < 0 then NaN else if x = 0 then NInf else Fin (log b x))"
| "f_log b PInf = PInf"
| "f_log b NInf = NaN"
| "f_log b NaN = NaN"

section \<open>The kernel: \<^verbatim>\<open>draw_mandelbrot\<close>\<close>

text \<open>
  A two-dimensional NumPy array is the list of its rows. \<^verbatim>\<open>range(n)\<close> is empty for
  \<open>n \<le> 0\<close>. \<^verbatim>\<open>numpy.linspace(start, stop, num)\<close> gives no sample for \<open>num \<le> 0\<close>,
  only \<open>start\<close> for \<open>num = 1\<close>, and \<open>num\<close> evenly spaced samples otherwise.
\<close>

type_synonym 'a array2 = "'a list list"

definition py_range :: "int \<Rightarrow> int list" where
  "py_range n = map int [0..<nat n]"

definition linspace :: "real \<Rightarrow> real \<Rightarrow> int \<Rightarrow> real list" where
  "linspace start stop num =
     (if num \<le> 0 then []
      else if num = 1 then [start]
      else map (\<lambda>k. real k * ((stop - start) / real_of_int (num - 1)) + start) [0..<nat num])"

definition meshgrid :: "real list \<Rightarrow> real list \<Rightarrow> real array2 \<times> real array2" where
  "meshgrid xs ys = (map (\<lambda>y. xs) ys, map (\<lambda>y. map (\<lambda>x. y) xs) ys)"

definition array_map2 :: "('a \<Rightarrow> 'b \<Rightarrow> 'c) \<Rightarrow> 'a array2 \<Rightarrow> 'b array2 \<Rightarrow> 'c array2" where
  "array_map2 f a b = map2 (map2 f) a b"

text \<open>Lines 85 to 87: the grid \<open>c = x + 1j*y\<close>.\<close>

definition c_grid :: "int \<Rightarrow> int \<Rightarrow> real \<Rightarrow> real \<Rightarrow> real \<Rightarrow> real \<Rightarrow> complex array2" where
  "c_grid width height left right top' bottom =
     (let (x, y) = meshgrid (linspace left right width) (linspace top' bottom height)
      in array_map2 (\<lambda>a b. complex_of_real a + \<i> * complex_of_real b) x y)"

text \<open>Lines 88 and 89: \<open>z = c.copy(); z[:] = z0\<close> overwrites every element with the seed.\<close>

definition z_init :: "complex array2 \<Rightarrow> complex \<Rightarrow> complex array2" where
  "z_init c z0 = map (map (\<lambda>e. z0)) c"

text \<open>
  Lines 91 to 93: the loop body \<open>z *= z; z += c\<close> works on whole arrays; the loop runs
  once per element of \<^verbatim>\<open>range(iterations)\<close> and has no other exit.
\<close>

definition z_body :: "complex array2 \<Rightarrow> complex array2 \<Rightarrow> complex array2" where
  "z_body c z = (let z = array_map2 (*) z z; z = array_map2 (+) z c in z)"

definition z_loop :: "int \<Rightarrow> complex array2 \<Rightarrow> complex array2 \<Rightarrow> complex array2" where
  "z_loop iterations c z = fold (\<lambda>n z. z_body c z) (py_range iterations) z"

text \<open>
  Lines 94 and 95, for one element:
  \<open>255 * floor(iterations - log2(log10(1 + abs(z)))) / iterations\<close>.
\<close>

definition fractal_value :: "int \<Rightarrow> complex \<Rightarrow> fval" where
  "fractal_value iterations z =
     f_div
       (f_mul (Fin 255)
          (f_floor (f_sub (Fin (of_int iterations))
             (f_log 2 (f_log 10 (f_add (Fin 1) (Fin (cmod z))))))))
       (Fin (of_int iterations))"

text \<open>
  \<^verbatim>\<open>Image.fromarray\<close> wraps the float array as an image of mode \<open>F\<close> with the same
  pixels and size: the image that \<^verbatim>\<open>draw_mandelbrot\<close> returns is the array itself.
\<close>

type_synonym image = "fval array2"

definition z_final ::
  "int \<Rightarrow> int \<Rightarrow> real \<Rightarrow> real \<Rightarrow> real \<Rightarrow> real \<Rightarrow> int \<Rightarrow> complex \<Rightarrow> complex array2" where
  "z_final width height left right top' bottom iterations z0 =
     (let c = c_grid width height left right top' bottom
      in z_loop iterations c (z_init c z0))"

definition draw_mandelbrot ::
  "int \<Rightarrow> int \<Rightarrow> real \<Rightarrow> real \<Rightarrow> real \<Rightarrow> real \<Rightarrow> int \<Rightarrow> complex \<Rightarrow> image" where
  "draw_mandelbrot width height left right top' bottom iterations z0 =
     map (map (fractal_value iterations))
       (z_final width height left right top' bottom iterations z0)"

text \<open>Two arrays have the same shape when their rows have the same lengths.\<close>

definition same_shape :: "'a array2 \<Rightarrow> 'b array2 \<Rightarrow> bool" where
  "same_shape a b = (map length a = map length b)"

section \<open>The frame generator: \<^verbatim>\<open>generate_mandelbrot_animation\<close>\<close>

text \<open>
  An exception of the program is a value of \<open>py_error\<close>. \<^verbatim>\<open>StopIteration\<close> is what
  \<^verbatim>\<open>next()\<close> raises on an exhausted iterator, \<^verbatim>\<open>ZeroDivisionError\<close> what
  \<^verbatim>\<open>numpy.arange\<close> raises for a zero step (it divides the span by the step to count the
  elements), \<^verbatim>\<open>StructError\<close> what \<^verbatim>\<open>struct.pack('<H', n)\<close> raises for \<open>n\<close> outside
  \<open>0..65535\<close>, and \<^verbatim>\<open>IndexError\<close> what indexing past the end of a list raises.
\<close>

datatype py_error = StopIteration | ZeroDivisionError | StructError | IndexError

text \<open>
  \<^verbatim>\<open>numpy.arange(start, stop, step)\<close> on floats: \<open>ceil((stop - start) / step)\<close> elements
  (none when that is not positive), the \<open>k\<close>-th being \<open>start + k * step\<close>.
\<close>

definition arange :: "real \<Rightarrow> real \<Rightarrow> real \<Rightarrow> py_error + real list" where
  "arange start stop step =
     (if step = 0 then Inl ZeroDivisionError
      else Inr (map (\<lambda>k. start + real k * step) [0..<nat \<lceil>(stop - start) / step\<rceil>]))"

text \<open>
  A generator, as its consumer sees it: the elements it yields, in order, and how it ends
  (\<open>None\<close>: it is exhausted; \<open>Some e\<close>: it raises \<open>e\<close> when asked for the next element).
\<close>

type_synonym 'a generator = "'a list \<times> py_error option"

text \<open>
  The sequential path: \<^verbatim>\<open>itertools.imap(fn, z0s)\<close> applies \<open>fn\<close> to each element in turn.
\<close>

definition imap :: "('a \<Rightarrow> 'b) \<Rightarrow> 'a list \<Rightarrow> 'b list" where
  "imap fn xs = map fn xs"

text \<open>
  The parallel path: \<^verbatim>\<open>executor.map(fn, z0s)\<close> of a \<^verbatim>\<open>ThreadPoolExecutor\<close> submits one work
  item per element, which gives one future per element, in input order; the pool's
  workers complete items in an order the program does not control; the results are then
  read from the futures in input order, each read waiting until its item is complete.
  The futures are a list of optional results. \<open>order\<close> lists the items in the order in
  which the workers have completed them when the results are read (any list of numbers:
  an item may be named twice or not at all, a number may name no item).
\<close>

definition worker_done :: "('a \<Rightarrow> 'b) \<Rightarrow> 'a list \<Rightarrow> nat \<Rightarrow> 'b option list \<Rightarrow> 'b option list" where
  "worker_done fn xs k fs = (if k < length fs then fs[k := Some (fn (xs ! k))] else fs)"

definition future_result :: "('a \<Rightarrow> 'b) \<Rightarrow> 'a list \<Rightarrow> 'b option list \<Rightarrow> nat \<Rightarrow> 'b" where
  "future_result fn xs fs k = (case fs ! k of Some r \<Rightarrow> r | None \<Rightarrow> fn (xs ! k))"

definition executor_map :: "nat list \<Rightarrow> ('a \<Rightarrow> 'b) \<Rightarrow> 'a list \<Rightarrow> 'b list" where
  "executor_map order fn xs =
     (let fs = replicate (length xs) None;
          fs = fold (worker_done fn xs) order fs
      in map (future_result fn xs fs) [0..<length xs])"

text \<open>
  Lines 99 to 118. \<open>futures\<close> tells whether the module \<^verbatim>\<open>concurrent.futures\<close> was imported.
  The body of a generator function runs when its first element is requested, so an
  exception of \<^verbatim>\<open>numpy.arange\<close> is how the generator ends, with nothing yielded.
\<close>

definition generate_mandelbrot_animation ::
  "bool \<Rightarrow> nat list \<Rightarrow> int \<Rightarrow> int \<Rightarrow> real \<Rightarrow> real \<Rightarrow> real \<Rightarrow> real \<Rightarrow> int \<Rightarrow> real \<Rightarrow> real \<Rightarrow> real
   \<Rightarrow> image generator" where
  "generate_mandelbrot_animation futures order width height left right top' bottom iterations
     start_z0 end_z0 step_z0 =
     (case arange start_z0 (end_z0 + step_z0) step_z0 of
        Inl e \<Rightarrow> ([], Some e)
      | Inr z0s \<Rightarrow>
          let fn = (\<lambda>z0. draw_mandelbrot width height left right top' bottom iterations
                           (complex_of_real z0))
          in if futures then (executor_map order fn z0s, None)
             else (imap fn z0s, None))"

section \<open>The encoder: \<^verbatim>\<open>build_animated_gif\<close>\<close>

text \<open>
  A Python 2 \<^verbatim>\<open>str\<close> is a list of bytes: a \<open>string\<close>. The stream is the list of the bytes
  written so far; \<^verbatim>\<open>stream.write(s)\<close> appends. \<^verbatim>\<open>struct.pack('<H', n)\<close> gives the two
  bytes of \<open>n\<close>, low byte first. \<^verbatim>\<open>round\<close> rounds half away from zero and \<^verbatim>\<open>int\<close>
  truncates; the delay is a real number.
\<close>

definition stream_write :: "string \<Rightarrow> string \<Rightarrow> string" where
  "stream_write stream s = stream @ s"

definition pack_H :: "int \<Rightarrow> py_error + string" where
  "pack_H n =
     (if 0 \<le> n \<and> n \<le> 65535 then Inr [char_of (n mod 256), char_of (n div 256)]
      else Inl StructError)"

definition py_round :: "real \<Rightarrow> real" where
  "py_round x = (if 0 \<le> x then of_int \<lfloor>x + 1 / 2\<rfloor> else - of_int \<lfloor>- x + 1 / 2\<rfloor>)"

definition py_int :: "real \<Rightarrow> int" where
  "py_int x = (if 0 \<le> x then \<lfloor>x\<rfloor> else \<lceil>x\<rceil>)"

text \<open>
  The calls into the imaging library are parameters of the encoder: \<^verbatim>\<open>image.convert('P')\<close>,
  \<^verbatim>\<open>image.size\<close>, \<^verbatim>\<open>GifImagePlugin.getheader(image)\<close> (a list of strings) and
  \<^verbatim>\<open>GifImagePlugin.getdata(im)\<close> (a list of strings). \<open>'a\<close> is the type of the images the
  encoder is given and \<open>'p\<close> the type of the converted ones.
\<close>

record ('a, 'p) pil =
  pil_convert :: "'a \<Rightarrow> 'p"
  pil_size :: "'p \<Rightarrow> int \<times> int"
  pil_getheader :: "'p \<Rightarrow> string list"
  pil_getdata :: "'p \<Rightarrow> string list"

text \<open>Lines 58 to 63: the application extension.\<close>

definition write_application_extension :: "string \<Rightarrow> py_error + string" where
  "write_application_extension stream =
     (let stream = stream_write stream [CHR 0x21, CHR 0xFF, CHR 0x0B];
          stream = stream_write stream ''NETSCAPE2.0'';
          stream = stream_write stream [CHR 0x03, CHR 0x01]
      in case pack_H (2 ^ 16 - 1) of
           Inl e \<Rightarrow> Inl e
         | Inr n \<Rightarrow>
             let stream = stream_write stream n;
                 stream = stream_write stream [CHR 0x00]
             in Inr stream)"

text \<open>
  Lines 66 to 70: the graphic control extension of one frame. The result is the stream
  and the exception raised, if any; what was written before the exception stays written.
\<close>

definition write_graphic_control_extension :: "real \<Rightarrow> string \<Rightarrow> string \<times> py_error option" where
  "write_graphic_control_extension delay stream =
     (let stream = stream_write stream [CHR 0x21, CHR 0xF9, CHR 0x04];
          stream = stream_write stream [CHR 0x08]
      in case pack_H (py_int (py_round (delay * 100))) of
           Inl e \<Rightarrow> (stream, Some e)
         | Inr d \<Rightarrow>
             let stream = stream_write stream d;
                 stream = stream_write stream [CHR 0x00, CHR 0x00]
             in (stream, None))"

text \<open>Lines 65 to 74: the loop over the frames, on the frames already converted.\<close>

fun write_frames ::
  "('a, 'p) pil \<Rightarrow> real \<Rightarrow> 'p list \<Rightarrow> string \<Rightarrow> string \<times> py_error option" where
  "write_frames pil delay [] stream = (stream, None)"
| "write_frames pil delay (im # ims) stream =
     (case write_graphic_control_extension delay stream of
        (stream, Some e) \<Rightarrow> (stream, Some e)
      | (stream, None) \<Rightarrow>
          let data = pil_getdata pil im;
              stream = fold (\<lambda>d stream. stream_write stream d) data stream
          in write_frames pil delay ims stream)"

text \<open>
  Lines 37 to 77. The frames are pulled one at a time: \<^verbatim>\<open>images.next()\<close> fails on a
  generator with no element, before anything is written; an exception of the generator
  after its last element is raised once the frames before it are written, and the
  terminator is not.
\<close>

definition build_animated_gif ::
  "('a, 'p) pil \<Rightarrow> string \<Rightarrow> 'a generator \<Rightarrow> real \<Rightarrow> string \<times> py_error option" where
  "build_animated_gif pil stream images delay =
     (case images of
        ([], None) \<Rightarrow> (stream, Some StopIteration)
      | ([], Some e) \<Rightarrow> (stream, Some e)
      | (first # rest, ending) \<Rightarrow>
          let image = pil_convert pil first;
              stream = stream_write stream ''GIF89a''
          in case pack_H (fst (pil_size pil image)) of
               Inl e \<Rightarrow> (stream, Some e)
             | Inr w \<Rightarrow>
          let stream = stream_write stream w
          in case pack_H (snd (pil_size pil image)) of
               Inl e \<Rightarrow> (stream, Some e)
             | Inr h \<Rightarrow>
          let stream = stream_write stream h;
              stream = stream_write stream [CHR 0x87, CHR 0x00, CHR 0x00]
          in case pil_getheader pil image of
               _ # palette # _ \<Rightarrow>
                 (let stream = stream_write stream palette
                  in case write_application_extension stream of
                       Inl e \<Rightarrow> (stream, Some e)
                     | Inr stream \<Rightarrow>
                 (case write_frames pil delay (image # map (pil_convert pil) rest) stream of
                    (stream, Some e) \<Rightarrow> (stream, Some e)
                  | (stream, None) \<Rightarrow>
                      (case ending of
                         Some e \<Rightarrow> (stream, Some e)
                       | None \<Rightarrow> (stream_write stream '';'', None))))
             | _ \<Rightarrow> (stream, Some IndexError))"

section \<open>The handler: \<^verbatim>\<open>MandelbrotHandler.get\<close>\<close>





section \<open>The blocks of the GIF89a format\<close>

text \<open>
  The format the encoder writes, for stating what the written bytes mean. The application
  extension that asks for endless looping is 19 bytes: the extension introducer
  \<open>0x21 0xFF\<close>, the block size 11, the identifier \<open>NETSCAPE2.0\<close>, a sub-block of
  3 bytes (its index 1 and the loop count, 16 bits, low byte first) and the terminator.
\<close>

definition netscape_block :: string where
  "netscape_block =
     [CHR 0x21, CHR 0xFF, CHR 0x0B] @ ''NETSCAPE2.0''
     @ [CHR 0x03, CHR 0x01, CHR 0xFF, CHR 0xFF, CHR 0x00]"

text \<open>
  The graphic control extension for a delay of \<open>n\<close> hundredths of a second, with the
  packed byte \<open>0x08\<close>, and the fields of a packed byte: three reserved bits, three bits
  of disposal method (0: none specified, 1: do not dispose, 2: restore to the background
  colour, 3: restore to the previous image), the user input flag and the transparent
  colour flag.
\<close>

definition graphic_control_block :: "int \<Rightarrow> string" where
  "graphic_control_block n =
     [CHR 0x21, CHR 0xF9, CHR 0x04, CHR 0x08, char_of (n mod 256), char_of (n div 256),
      CHR 0x00, CHR 0x00]"




text \<open>Reading a 16-bit number, low byte first, from the head of a string.\<close>

definition unpack_H :: "string \<Rightarrow> int" where
  "unpack_H s = of_char (s ! 0) + 256 * of_char (s ! 1)"

section \<open>Sample inputs\<close>

text \<open>
  A small stand-in for the imaging library, for the examples: it leaves an image as it
  is, reads the size off the array, and answers every image with the same two-entry
  header and the same three strings of image data.
\<close>

definition sample_pil :: "(image, image) pil" where
  "sample_pil =
     \<lparr>pil_convert = (\<lambda>im. im),
      pil_size = (\<lambda>im. (case im of [] \<Rightarrow> 0 | row # rows \<Rightarrow> int (length row), int (length im))),
      pil_getheader = (\<lambda>im. [''GIF87a'', ''rgb'']),
      pil_getdata = (\<lambda>im. ['','', ''lzw'', [CHR 0x00]])\<rparr>"


section \<open>Shape of the arrays\<close>

lemma length_linspace: "length (linspace start stop num) = nat num"
  by (simp add: linspace_def)

lemma length_c_grid: "length (c_grid w h l r t b) = nat h"
  by (simp add: c_grid_def meshgrid_def array_map2_def length_linspace)

lemma c_grid_row:
  assumes "i < nat h"
  shows "length (c_grid w h l r t b ! i) = nat w"
  using assms by (simp add: c_grid_def meshgrid_def array_map2_def length_linspace)

lemma c_grid_nth:
  assumes "i < nat h" and "j < nat w"
  shows "c_grid w h l r t b ! i ! j = Complex (linspace l r w ! j) (linspace t b h ! i)"
  using assms
  by (simp add: c_grid_def meshgrid_def array_map2_def length_linspace complex_eq_iff)

lemma same_shape_z_init: "same_shape (z_init c z0) c"
  by (simp add: same_shape_def z_init_def comp_def)

lemma z_init_nth:
  assumes "i < length c" and "j < length (c ! i)"
  shows "z_init c z0 ! i ! j = z0"
  using assms by (simp add: z_init_def)

lemma same_shape_z_body:
  assumes "same_shape z c"
  shows "same_shape (z_body c z) c"
  using assms unfolding same_shape_def z_body_def array_map2_def
  by (auto simp: list_eq_iff_nth_eq)

lemma z_body_nth:
  assumes "same_shape z c" and "i < length c" and "j < length (c ! i)"
  shows "z_body c z ! i ! j = z ! i ! j * z ! i ! j + c ! i ! j"
  using assms unfolding same_shape_def z_body_def array_map2_def
  by (auto simp: list_eq_iff_nth_eq)

text \<open>
  The loop, element by element: whatever list the loop runs over, each element of the
  array is updated once per element of that list.
\<close>

lemma fold_z_body:
  assumes "same_shape z c" and "i < length c" and "j < length (c ! i)"
  shows "fold (\<lambda>n z. z_body c z) ns z ! i ! j
         = ((\<lambda>w. w * w + c ! i ! j) ^^ length ns) (z ! i ! j)"
  using assms
proof (induction ns arbitrary: z)
  case Nil
  then show ?case by simp
next
  case (Cons n ns)
  have "fold (\<lambda>n z. z_body c z) (n # ns) z ! i ! j
        = fold (\<lambda>n z. z_body c z) ns (z_body c z) ! i ! j"
    by simp
  also have "\<dots> = ((\<lambda>w. w * w + c ! i ! j) ^^ length ns) (z_body c z ! i ! j)"
    using Cons.prems by (intro Cons.IH same_shape_z_body)
  also have "\<dots> = ((\<lambda>w. w * w + c ! i ! j) ^^ length ns) (z ! i ! j * z ! i ! j + c ! i ! j)"
    using Cons.prems by (simp add: z_body_nth)
  finally show ?case by (simp del: funpow.simps add: funpow_Suc_right)
qed

lemma z_final_nth:
  assumes "i < nat height" and "j < nat width"
  shows "z_final width height left right top' bottom iterations z0 ! i ! j
         = ((\<lambda>z. z * z + c_grid width height left right top' bottom ! i ! j) ^^ nat iterations) z0"
  using assms
  by (simp add: z_final_def Let_def z_loop_def py_range_def fold_z_body same_shape_z_init
      z_init_nth length_c_grid c_grid_row)

lemma same_shape_fold_z_body: "same_shape z c \<Longrightarrow> same_shape (fold (\<lambda>n z. z_body c z) ns z) c"
  by (induction ns arbitrary: z) (simp_all add: same_shape_z_body)

lemma same_shape_z_final:
  "same_shape (z_final w h l r t b it z0) (c_grid w h l r t b)"
  by (simp add: z_final_def Let_def z_loop_def same_shape_fold_z_body same_shape_z_init)

lemma same_shape_length: "same_shape a b \<Longrightarrow> length a = length b"
  unfolding same_shape_def by (metis length_map)

lemma same_shape_row: "same_shape a b \<Longrightarrow> i < length b \<Longrightarrow> length (a ! i) = length (b ! i)"
  unfolding same_shape_def by (metis length_map nth_map)

lemma length_z_final: "length (z_final w h l r t b it z0) = nat h"
  using same_shape_length [OF same_shape_z_final] by (simp add: length_c_grid)

lemma z_final_row:
  assumes "i < nat h"
  shows "length (z_final w h l r t b it z0 ! i) = nat w"
  using same_shape_row [OF same_shape_z_final, of i w h l r t b] assms
  by (simp add: length_c_grid c_grid_row)



lemma draw_mandelbrot_nth:
  assumes "i < nat h" and "j < nat w"
  shows "draw_mandelbrot w h l r t b it z0 ! i ! j = fractal_value it (z_final w h l r t b it z0 ! i ! j)"
  using assms by (simp add: draw_mandelbrot_def length_z_final z_final_row)

section \<open>The value of a pixel\<close>








section \<open>The sweep and the two paths of the generator\<close>









section \<open>What the encoder writes\<close>

lemma py_int_round: "py_int (py_round x) = (if 0 \<le> x then \<lfloor>x + 1/2\<rfloor> else - \<lfloor>- x + 1/2\<rfloor>)"
  by (auto simp: py_int_def py_round_def) linarith+

lemma fold_stream_write: "fold (\<lambda>d stream. stream_write stream d) data stream = stream @ concat data"
  by (induction data arbitrary: stream) (simp_all add: stream_write_def)

lemma pack_H_ok:
  assumes "0 \<le> n" and "n \<le> 65535"
  shows "pack_H n = Inr [char_of (n mod 256), char_of (n div 256)]"
  using assms by (simp add: pack_H_def)


lemma write_gce_ok:
  assumes "0 \<le> py_int (py_round (delay * 100))" and "py_int (py_round (delay * 100)) \<le> 65535"
  shows "write_graphic_control_extension delay stream
         = (stream @ graphic_control_block (py_int (py_round (delay * 100))), None)"
  using assms
  by (simp add: write_graphic_control_extension_def stream_write_def pack_H_ok graphic_control_block_def)

lemma write_frames_ok:
  assumes "0 \<le> py_int (py_round (delay * 100))" and "py_int (py_round (delay * 100)) \<le> 65535"
  shows "write_frames pil delay ims stream
         = (stream @ concat (map (\<lambda>im. graphic_control_block (py_int (py_round (delay * 100)))
                                        @ concat (pil_getdata pil im)) ims), None)"
  using assms
  by (induction ims arbitrary: stream) (simp_all add: write_gce_ok fold_stream_write)

lemma write_gce_append:
  "write_graphic_control_extension delay stream
   = (stream @ fst (write_graphic_control_extension delay []),
      snd (write_graphic_control_extension delay []))"
  by (simp add: write_graphic_control_extension_def stream_write_def Let_def split: sum.splits)

lemma write_frames_append:
  "write_frames pil delay ims stream
   = (stream @ fst (write_frames pil delay ims []), snd (write_frames pil delay ims []))"
proof (induction ims arbitrary: stream)
  case Nil
  then show ?case by simp
next
  case (Cons im ims)
  obtain g e where g: "write_graphic_control_extension delay [] = (g, e)"
    by (cases "write_graphic_control_extension delay []")
  have gs: "write_graphic_control_extension delay stream = (stream @ g, e)"
    using write_gce_append [of delay stream] g by simp
  show ?case
  proof (cases e)
    case (Some err)
    then show ?thesis using g gs by simp
  next
    case None
    have "write_frames pil delay (im # ims) stream
          = write_frames pil delay ims ((stream @ g) @ concat (pil_getdata pil im))"
      using gs None by (simp add: fold_stream_write)
    also have "\<dots> = (((stream @ g) @ concat (pil_getdata pil im)) @ fst (write_frames pil delay ims []),
                      snd (write_frames pil delay ims []))"
      by (rule Cons.IH)
    finally have 1: "write_frames pil delay (im # ims) stream
          = (stream @ g @ concat (pil_getdata pil im) @ fst (write_frames pil delay ims []),
                      snd (write_frames pil delay ims []))" by simp
    have "write_frames pil delay (im # ims) []
          = write_frames pil delay ims (g @ concat (pil_getdata pil im))"
      using g None by (simp add: fold_stream_write)
    also have "\<dots> = ((g @ concat (pil_getdata pil im)) @ fst (write_frames pil delay ims []),
                      snd (write_frames pil delay ims []))"
      by (rule Cons.IH)
    finally have 2: "write_frames pil delay (im # ims) []
          = (g @ concat (pil_getdata pil im) @ fst (write_frames pil delay ims []),
                      snd (write_frames pil delay ims []))" by simp
    show ?thesis using 1 2 by simp
  qed
qed

lemma write_application_extension_eq:
  "write_application_extension stream = Inr (stream @ netscape_block)"
  by (simp add: write_application_extension_def stream_write_def pack_H_def netscape_block_def
      char_of_def)

section \<open>The claims\<close>






text \<open>
  Claim C3. For every grid point \<open>z\<close> starts as the seed \<open>z0\<close>, and for a positive
  iteration count the final \<open>z\<close> is the seed after exactly \<open>iterations\<close> applications
  of \<open>z \<mapsto> z * z + c\<close>, with \<open>c\<close> the grid point: no application is skipped. The
  pixel is computed from that final \<open>z\<close>.
\<close>

theorem seed_then_fixed_iterations:
  assumes "0 < iterations" and "i < nat height" and "j < nat width"
  shows "z_init (c_grid width height left right top' bottom) z0 ! i ! j = z0
       \<and> z_final width height left right top' bottom iterations z0 ! i ! j
         = ((\<lambda>z. z * z + c_grid width height left right top' bottom ! i ! j) ^^ nat iterations) z0
       \<and> draw_mandelbrot width height left right top' bottom iterations z0 ! i ! j
         = fractal_value iterations
             (((\<lambda>z. z * z + c_grid width height left right top' bottom ! i ! j) ^^ nat iterations) z0)"
  using assms z_final_nth [OF assms(2,3)] draw_mandelbrot_nth [OF assms(2,3)]
  by (simp add: z_init_nth length_c_grid c_grid_row)

text \<open>An instance: the grid point \<open>1 - \<i>\<close> of a 2 by 2 grid, seed 0, three iterations.\<close>

theorem seed_then_fixed_iterations_witness:
  "(0::int) < 3 \<and> (0::nat) < nat 2 \<and> (1::nat) < nat 2
   \<and> z_init (c_grid 2 2 (-1) 1 (-1) 1) 0 ! 0 ! 1 = 0
   \<and> z_final 2 2 (-1) 1 (-1) 1 3 0 ! 0 ! 1 = Complex (- 7) (- 7)"
  using seed_then_fixed_iterations [of 3 0 2 1 2 "-1" 1 "-1" 1 0]
  by (simp add: c_grid_nth linspace_def eval_nat_numeral complex_eq_iff)

text \<open>
  Claim C4. On an empty sequence of frames the encoder fails before it writes anything:
  the stream is unchanged. The exception is the \<^verbatim>\<open>StopIteration\<close> of \<^verbatim>\<open>images.next()\<close>.
\<close>

theorem empty_animation:
  "build_animated_gif pil stream ([], None) delay = (stream, Some StopIteration)"
  by (simp add: build_animated_gif_def)

text \<open>An instance: a stream that already holds three bytes.\<close>

theorem empty_animation_witness:
  "build_animated_gif sample_pil ''abc'' ([], None) (1 / 10) = (''abc'', Some StopIteration)"
  using empty_animation [of sample_pil "''abc''" "1 / 10"] by simp







text \<open>
  Claim C8, as amended. When the first frame's size fits 16 bits and the library's header
  has its palette entry, the stream is the signature, the width and height, the three
  descriptor bytes, the palette of the first frame, then the application extension, once,
  then what the loop over the frames writes, then the terminator if nothing failed. The
  application extension is a fixed sequence of 19 bytes: the introducer \<open>0x21 0xFF\<close> and
  block size 11, \<open>NETSCAPE2.0\<close>, the sub-block length 3 and index 1, the loop count
  \<open>0xFFFF\<close> and the terminator.
\<close>

theorem application_extension_layout:
  assumes "pack_H (fst (pil_size pil (pil_convert pil first))) = Inr w"
    and "pack_H (snd (pil_size pil (pil_convert pil first))) = Inr h"
    and "pil_getheader pil (pil_convert pil first) = hdr # palette # others"
  shows "fst (build_animated_gif pil stream (first # rest, ending) delay)
         = stream @ ''GIF89a'' @ w @ h @ [CHR 0x87, CHR 0x00, CHR 0x00] @ palette
           @ netscape_block
           @ fst (write_frames pil delay (map (pil_convert pil) (first # rest)) [])
           @ (if snd (write_frames pil delay (map (pil_convert pil) (first # rest)) []) = None
                 \<and> ending = None then '';'' else [])
       \<and> length netscape_block = 19
       \<and> take 3 netscape_block = [CHR 0x21, CHR 0xFF, CHR 0x0B]
       \<and> take 11 (drop 3 netscape_block) = ''NETSCAPE2.0''
       \<and> take 2 (drop 14 netscape_block) = [CHR 0x03, CHR 0x01]
       \<and> unpack_H (drop 16 netscape_block) = 65535
       \<and> drop 18 netscape_block = [CHR 0x00]"
proof -
  let ?ims = "map (pil_convert pil) (first # rest)"
  let ?pre = "stream @ ''GIF89a'' @ w @ h @ [CHR 0x87, CHR 0x00, CHR 0x00] @ palette @ netscape_block"
  have wf: "write_frames pil delay ?ims ?pre
            = (?pre @ fst (write_frames pil delay ?ims []), snd (write_frames pil delay ?ims []))"
    by (rule write_frames_append)
  have "fst (build_animated_gif pil stream (first # rest, ending) delay)
        = ?pre @ fst (write_frames pil delay ?ims [])
           @ (if snd (write_frames pil delay ?ims []) = None \<and> ending = None then '';'' else [])"
    using assms wf
    by (simp add: build_animated_gif_def stream_write_def write_application_extension_eq
        split: option.splits)
  moreover have "length netscape_block = 19" by (simp add: netscape_block_def)
  moreover have "unpack_H (drop 16 netscape_block) = 65535"
    by (simp add: netscape_block_def unpack_H_def)
  ultimately show ?thesis by (simp add: netscape_block_def)
qed

text \<open>An instance: one frame of two pixels.\<close>

theorem application_extension_layout_witness:
  "pack_H (fst (pil_size sample_pil (pil_convert sample_pil [[Fin 255, PInf]]))) = Inr [CHR 0x02, CHR 0x00]
   \<and> pack_H (snd (pil_size sample_pil (pil_convert sample_pil [[Fin 255, PInf]]))) = Inr [CHR 0x01, CHR 0x00]
   \<and> pil_getheader sample_pil (pil_convert sample_pil [[Fin 255, PInf]]) = ''GIF87a'' # ''rgb'' # []
   \<and> fst (build_animated_gif sample_pil '''' ([[[Fin 255, PInf]]], None) (1 / 10))
     = ''GIF89a'' @ [CHR 0x02, CHR 0x00, CHR 0x01, CHR 0x00, CHR 0x87, CHR 0x00, CHR 0x00] @ ''rgb''
       @ netscape_block
       @ [CHR 0x21, CHR 0xF9, CHR 0x04, CHR 0x08, CHR 0x0A, CHR 0x00, CHR 0x00, CHR 0x00] @ '','' @ ''lzw'' @ [CHR 0x00]
       @ '';''"
proof -
  have 1: "pack_H (fst (pil_size sample_pil (pil_convert sample_pil [[Fin 255, PInf]]))) = Inr [CHR 0x02, CHR 0x00]"
    by (simp add: sample_pil_def pack_H_def char_of_def)
  have 2: "pack_H (snd (pil_size sample_pil (pil_convert sample_pil [[Fin 255, PInf]]))) = Inr [CHR 0x01, CHR 0x00]"
    by (simp add: sample_pil_def pack_H_def char_of_def)
  have 3: "pil_getheader sample_pil (pil_convert sample_pil [[Fin 255, PInf]]) = ''GIF87a'' # ''rgb'' # []"
    by (simp add: sample_pil_def)
  have 4: "write_frames sample_pil (1 / 10) [[[Fin 255, PInf]]] ''''
           = ([CHR 0x21, CHR 0xF9, CHR 0x04, CHR 0x08, CHR 0x0A, CHR 0x00, CHR 0x00, CHR 0x00] @ '','' @ ''lzw'' @ [CHR 0x00], None)"
    by (simp add: write_graphic_control_extension_def stream_write_def pack_H_def py_round_def
        py_int_def char_of_def sample_pil_def)
  show ?thesis
    using application_extension_layout [OF 1 2 3, of "''''" "[]" None "1 / 10"] 1 2 3 4
    by (simp add: sample_pil_def)
qed

text \<open>Claim C8 as stated fails: the block the encoder writes is 19 bytes long, not 17.\<close>

theorem application_extension_counterexample:
  "write_application_extension '''' = Inr netscape_block \<and> length netscape_block = 19
   \<and> length netscape_block \<noteq> 17"
  by (simp add: write_application_extension_eq) (simp add: netscape_block_def)




text \<open>
  Claim C10. With a step of zero the generator raises when its first element is
  requested and yields nothing, and the encoder fails with that exception before it
  writes anything.
\<close>

theorem zero_step_rejected:
  "generate_mandelbrot_animation futures order width height left right top' bottom iterations
     start_z0 end_z0 0 = ([], Some ZeroDivisionError)
   \<and> build_animated_gif pil stream
       (generate_mandelbrot_animation futures order width height left right top' bottom iterations
          start_z0 end_z0 0) delay = (stream, Some ZeroDivisionError)"
  by (simp add: generate_mandelbrot_animation_def arange_def build_animated_gif_def)

text \<open>An instance: the default parameters with a step of zero.\<close>

theorem zero_step_rejected_witness:
  "generate_mandelbrot_animation True [] 250 250 (- 2.68) 1.32 (- 1.5) 1.5 10 (- 3) 3 0
   = ([], Some ZeroDivisionError)
   \<and> build_animated_gif sample_pil ''''
       (generate_mandelbrot_animation True [] 250 250 (- 2.68) 1.32 (- 1.5) 1.5 10 (- 3) 3 0)
       (1 / 10)
     = ('''', Some ZeroDivisionError)"
  by (rule zero_step_rejected [of True "[]" 250 250 "- 2.68" "1.32" "- 1.5" "1.5" 10 "- 3" 3
      sample_pil "''''" "1 / 10"])

section \<open>The whole stream\<close>

text \<open>
  When nothing fails, the stream is the header with the palette of the first frame,
  the application extension, one graphic control extension and the library's image data
  per frame, and the terminator. The header and the palette are read from the first frame
  only, and nothing but the library's image data is written for a later frame.
\<close>

theorem gif_stream_layout:
  assumes "pack_H (fst (pil_size pil (pil_convert pil first))) = Inr w"
    and "pack_H (snd (pil_size pil (pil_convert pil first))) = Inr h"
    and "pil_getheader pil (pil_convert pil first) = hdr # palette # others"
    and "0 \<le> py_int (py_round (delay * 100))" and "py_int (py_round (delay * 100)) \<le> 65535"
  shows "build_animated_gif pil stream (first # rest, None) delay
         = (stream @ ''GIF89a'' @ w @ h @ [CHR 0x87, CHR 0x00, CHR 0x00] @ palette
            @ netscape_block
            @ concat (map (\<lambda>im. graphic_control_block (py_int (py_round (delay * 100)))
                               @ concat (pil_getdata pil (pil_convert pil im))) (first # rest))
            @ '';'', None)"
proof -
  let ?pre = "stream @ ''GIF89a'' @ w @ h @ [CHR 0x87, CHR 0x00, CHR 0x00] @ palette @ netscape_block"
  have wf: "write_frames pil delay (pil_convert pil first # map (pil_convert pil) rest) ?pre
            = (?pre @ concat (map (\<lambda>im. graphic_control_block (py_int (py_round (delay * 100)))
                                        @ concat (pil_getdata pil im))
                               (pil_convert pil first # map (pil_convert pil) rest)), None)"
    by (rule write_frames_ok [OF assms(4,5)])
  show ?thesis
    using assms(1,2,3) wf
    by (simp add: build_animated_gif_def stream_write_def write_application_extension_eq comp_def
        del: write_frames.simps)
qed

theorem gif_stream_layout_witness:
  "pack_H (fst (pil_size sample_pil (pil_convert sample_pil [[Fin 255, PInf]]))) = Inr [CHR 0x02, CHR 0x00]
   \<and> pack_H (snd (pil_size sample_pil (pil_convert sample_pil [[Fin 255, PInf]]))) = Inr [CHR 0x01, CHR 0x00]
   \<and> pil_getheader sample_pil (pil_convert sample_pil [[Fin 255, PInf]]) = ''GIF87a'' # ''rgb'' # []
   \<and> 0 \<le> py_int (py_round (1 / 10 * 100)) \<and> py_int (py_round (1 / 10 * 100)) \<le> 65535
   \<and> build_animated_gif sample_pil '''' ([[[Fin 255, PInf]], [[NaN, NInf]]], None) (1 / 10)
     = (''GIF89a'' @ [CHR 0x02, CHR 0x00, CHR 0x01, CHR 0x00, CHR 0x87, CHR 0x00, CHR 0x00] @ ''rgb''
        @ netscape_block
        @ [CHR 0x21, CHR 0xF9, CHR 0x04, CHR 0x08, CHR 0x0A, CHR 0x00, CHR 0x00, CHR 0x00] @ '','' @ ''lzw'' @ [CHR 0x00]
        @ [CHR 0x21, CHR 0xF9, CHR 0x04, CHR 0x08, CHR 0x0A, CHR 0x00, CHR 0x00, CHR 0x00] @ '','' @ ''lzw'' @ [CHR 0x00]
        @ '';'', None)"
proof -
  have 1: "pack_H (fst (pil_size sample_pil (pil_convert sample_pil [[Fin 255, PInf]]))) = Inr [CHR 0x02, CHR 0x00]"
    by (simp add: sample_pil_def pack_H_def char_of_def)
  have 2: "pack_H (snd (pil_size sample_pil (pil_convert sample_pil [[Fin 255, PInf]]))) = Inr [CHR 0x01, CHR 0x00]"
    by (simp add: sample_pil_def pack_H_def char_of_def)
  have 3: "pil_getheader sample_pil (pil_convert sample_pil [[Fin 255, PInf]]) = ''GIF87a'' # ''rgb'' # []"
    by (simp add: sample_pil_def)
  have 4: "0 \<le> py_int (py_round (1 / 10 * 100))" and 5: "py_int (py_round (1 / 10 * 100)) \<le> 65535"
    by (simp_all add: py_int_def py_round_def)
  have 6: "graphic_control_block (py_int (py_round (1 / 10 * 100)))
           = [CHR 0x21, CHR 0xF9, CHR 0x04, CHR 0x08, CHR 0x0A, CHR 0x00, CHR 0x00, CHR 0x00]"
    by (simp add: py_int_def py_round_def graphic_control_block_def char_of_def)
  show ?thesis
    using gif_stream_layout [OF 1 2 3 4 5, of "''''" "[[[NaN, NInf]]]"] 1 2 3 4 5 6
    by (simp add: sample_pil_def)
qed

end
